theory Spec2Isabelle
  imports Complex_Main "HOL-Library.Word"
begin

unbundle bit_operations_syntax

section \<open>Data model\<close>

text \<open>
  A Python \<open>bytes\<close> value is a list of 8-bit words. Python integers are unbounded
  (\<open>int\<close>, or \<open>nat\<close> for lengths). Exceptions are values of the type \<open>error\<close>; a
  function that may raise returns \<open>error + 'a\<close>, with \<open>Inl\<close> for the exception.
\<close>

type_synonym byte = "8 word"

datatype error = ValueError | TimeoutError | IndexError

text \<open>Sequencing of computations that may raise: the first exception wins.\<close>

definition and_then :: "error + 'a \<Rightarrow> ('a \<Rightarrow> error + 'b) \<Rightarrow> error + 'b" where
  "and_then r f = (case r of Inl e \<Rightarrow> Inl e | Inr v \<Rightarrow> f v)"

text \<open>\<open>xs[i]\<close> for a non-negative index: IndexError when out of range.\<close>

definition getitem :: "'a list \<Rightarrow> nat \<Rightarrow> error + 'a" where
  "getitem xs i = (if i < length xs then Inr (xs ! i) else Inl IndexError)"

text \<open>\<open>xs[i:j]\<close> for non-negative bounds: never raises, clips at the end of \<open>xs\<close>.\<close>

definition slice :: "'a list \<Rightarrow> nat \<Rightarrow> nat \<Rightarrow> 'a list" where
  "slice xs i j = take (j - i) (drop i xs)"

text \<open>\<open>bytes.ljust(width, fill)\<close>: pad on the right, never truncate.\<close>

definition ljust :: "nat \<Rightarrow> 'a \<Rightarrow> 'a list \<Rightarrow> 'a list" where
  "ljust width fill xs = xs @ replicate (width - length xs) fill"

section \<open>ISO-TP single-frame utilities\<close>

definition make_isotp_single_frame :: "byte list \<Rightarrow> error + byte list" where
  "make_isotp_single_frame payload =
     (if length payload > 7 then Inl ValueError
      else let pci = (length payload) AND 0x0F;
               data = [word_of_nat pci] @ payload
           in Inr (ljust 8 0x00 data))"

definition parse_isotp_single_frame :: "byte list \<Rightarrow> error + byte list" where
  "parse_isotp_single_frame data =
     (if data = [] then Inr []
      else and_then (getitem data 0) (\<lambda>b0.
             let len = unat (b0 AND 0x0F)
             in Inr (slice data 1 (1 + len))))"

text \<open>\<open>hexstr\<close>: two upper-case hexadecimal digits per byte, joined by blanks.\<close>

definition hex_digit :: "nat \<Rightarrow> char" where
  "hex_digit n = ''0123456789ABCDEF'' ! (n mod 16)"

definition hex02 :: "byte \<Rightarrow> string" where
  "hex02 x = [hex_digit (unat x div 16), hex_digit (unat x mod 16)]"

fun join :: "string \<Rightarrow> string list \<Rightarrow> string" where
  "join sep [] = []"
| "join sep [s] = s"
| "join sep (s # t # ss) = s @ sep @ join sep (t # ss)"

definition hexstr :: "byte list \<Rightarrow> string" where
  "hexstr b = join '' '' (map hex02 b)"

section \<open>The bus\<close>

text \<open>
  A \<open>can.Message\<close> with the fields the program sets and reads. A message object is
  always truthy, so \<open>if r\<close> on the result of \<open>bus.recv\<close> tests for \<open>None\<close> only;
  \<open>bus.recv\<close> is modelled as returning a \<open>Message option\<close>.
\<close>

record Message =
  arbitration_id :: int
  is_extended_id :: bool
  data :: "byte list"

section \<open>Minimal ECU stub (server)\<close>

record ECUConfig =
  req_id :: int
  res_id :: int

definition ECUConfig_default :: ECUConfig where
  "ECUConfig_default = \<lparr>req_id = 0x7E0, res_id = 0x7E8\<rparr>"

record MiniECUStub =
  cfg :: ECUConfig
  running :: bool
  unlocked :: bool
  last_seed :: "int option"

definition MiniECUStub_init :: "ECUConfig \<Rightarrow> MiniECUStub" where
  "MiniECUStub_init c = \<lparr>cfg = c, running = True, unlocked = False, last_seed = None\<rparr>"

definition did_map :: "(byte \<times> byte) \<Rightarrow> byte list option" where
  "did_map = map_of
     [((0xF1, 0x87), [0x56, 0x31, 0x30]),
      ((0xF1, 0x88), [0x45, 0x43, 0x55]),
      ((0xF1, 0x8C), [0x42, 0x54, 0x31]),
      ((0xF1, 0x89), [0x48, 0x57, 0x31]),
      ((0xF1, 0x95), [0x53, 0x55, 0x50]),
      ((0xF1, 0xA0), [0x58, 0x31])]"

text \<open>
  What the stub does to the outside world while it handles one request, in order:
  frames put on the bus, and calls of \<open>time.sleep\<close> (seconds).
\<close>

datatype effect = BusSend Message | Sleep real

type_synonym effects = "error + effect list"

definition no_effect :: effects where
  "no_effect = Inr []"

definition seq :: "effects \<Rightarrow> effects \<Rightarrow> effects" where
  "seq a b = and_then a (\<lambda>xs. and_then b (\<lambda>ys. Inr (xs @ ys)))"

definition sleep :: "real \<Rightarrow> effects" where
  "sleep secs = Inr [Sleep secs]"

definition send_sf :: "int \<Rightarrow> byte list \<Rightarrow> effects" where
  "send_sf arb_id payload =
     and_then (make_isotp_single_frame payload) (\<lambda>d.
       Inr [BusSend \<lparr>arbitration_id = arb_id, is_extended_id = False, data = d\<rparr>])"

definition send_nrc :: "MiniECUStub \<Rightarrow> byte \<Rightarrow> byte \<Rightarrow> effects" where
  "send_nrc ecu sid nrc = send_sf (res_id (cfg ecu)) [0x7F, sid, nrc]"

definition sub_spr :: "byte \<Rightarrow> byte \<times> bool" where
  "sub_spr sub = (let suppress = (sub AND 0x80) \<noteq> 0 in (sub AND 0x7F, suppress))"

text \<open>The branches of the dispatch chain in \<open>MiniECUStub.run\<close>, one per service.\<close>

definition diagnostic_session_control :: "MiniECUStub \<Rightarrow> byte list \<Rightarrow> effects" where
  "diagnostic_session_control ecu uds =
     (if length uds < 2 then send_nrc ecu 0x10 0x11
      else and_then (getitem uds 1) (\<lambda>sub.
        case sub_spr sub of (sub_wo, suppress) \<Rightarrow>
          if sub_wo = 0x01 \<or> sub_wo = 0x03 then
            seq (if sub_wo = 0x03
                 then seq (send_nrc ecu 0x10 0x78) (sleep 0.15)
                 else no_effect)
                (if \<not> suppress
                 then send_sf (res_id (cfg ecu)) [0x50, sub_wo]
                 else no_effect)
          else send_nrc ecu 0x10 0x12))"

definition ecu_reset :: "MiniECUStub \<Rightarrow> byte list \<Rightarrow> effects" where
  "ecu_reset ecu uds =
     (if length uds < 2 then send_nrc ecu 0x11 0x11
      else and_then (getitem uds 1) (\<lambda>sub.
        case sub_spr sub of (sub_wo, suppress) \<Rightarrow>
          if sub_wo = 0x01 \<or> sub_wo = 0x03 then
            (if \<not> suppress
             then send_sf (res_id (cfg ecu)) [0x51, sub_wo]
             else no_effect)
          else send_nrc ecu 0x11 0x12))"

definition read_data_by_identifier :: "MiniECUStub \<Rightarrow> byte list \<Rightarrow> effects" where
  "read_data_by_identifier ecu uds =
     (if length uds < 3 then send_nrc ecu 0x22 0x11
      else and_then (getitem uds 1) (\<lambda>did_hi.
           and_then (getitem uds 2) (\<lambda>did_lo.
        case did_map (did_hi, did_lo) of
          Some v \<Rightarrow>
            if length v \<le> 4
            then send_sf (res_id (cfg ecu)) ([0x62, did_hi, did_lo] @ v)
            else send_nrc ecu 0x22 0x31
        | None \<Rightarrow> send_nrc ecu 0x22 0x31)))"

text \<open>
  SecurityAccess is the only branch that writes to the stub's fields, so it returns the
  stub as well. \<open>rnd\<close> is the value \<open>random.randint(0, 0xFFFF)\<close> returns when the
  branch draws a seed.
\<close>

definition with_ecu :: "MiniECUStub \<Rightarrow> effects \<Rightarrow> error + (MiniECUStub \<times> effect list)" where
  "with_ecu ecu r = and_then r (\<lambda>evs. Inr (ecu, evs))"

definition security_access ::
  "MiniECUStub \<Rightarrow> 16 word \<Rightarrow> byte list \<Rightarrow> error + (MiniECUStub \<times> effect list)" where
  "security_access ecu rnd uds =
     (if length uds < 2 then with_ecu ecu (send_nrc ecu 0x27 0x11)
      else and_then (getitem uds 1) (\<lambda>sub.
        if sub = 0x01 then
          (let ecu1 = ecu\<lparr>last_seed := Some (uint rnd)\<rparr>;
               seed = uint rnd;
               seed_hi = (drop_bit 8 seed) AND 0xFF;
               seed_lo = seed AND 0xFF
           in with_ecu ecu1
                (send_sf (res_id (cfg ecu1)) [0x67, 0x01, word_of_int seed_hi, word_of_int seed_lo]))
        else if sub = 0x02 then
          (if length uds < 4 then with_ecu ecu (send_nrc ecu 0x27 0x11)
           else and_then (getitem uds 2) (\<lambda>k_hi.
                and_then (getitem uds 3) (\<lambda>k_lo.
             let key = (push_bit 8 (uint k_hi)) OR (uint k_lo);
                 seed_or_0 = (case last_seed ecu of None \<Rightarrow> 0
                              | Some s \<Rightarrow> if s = 0 then 0 else s);
                 expected = (seed_or_0 + 1) AND 0xFFFF
             in if key = expected then
                  (let ecu1 = ecu\<lparr>unlocked := True\<rparr>
                   in with_ecu ecu1 (send_sf (res_id (cfg ecu1)) [0x67, 0x02]))
                else
                  (let ecu1 = ecu\<lparr>unlocked := False\<rparr>
                   in with_ecu ecu1 (send_nrc ecu1 0x27 0x35)))))
        else with_ecu ecu (send_nrc ecu 0x27 0x12)))"

definition read_dtc_information :: "MiniECUStub \<Rightarrow> byte list \<Rightarrow> effects" where
  "read_dtc_information ecu uds =
     (if length uds < 2 then send_nrc ecu 0x19 0x11
      else and_then (getitem uds 1) (\<lambda>sub.
        if sub = 0x02 then
          and_then (if length uds \<ge> 3 then getitem uds 2 else Inr 0xFF) (\<lambda>mask.
            send_sf (res_id (cfg ecu)) [0x59, 0x02, 0x12, 0x34, 0x56, 0x00])
        else send_nrc ecu 0x19 0x12))"

definition routine_control :: "MiniECUStub \<Rightarrow> byte list \<Rightarrow> effects" where
  "routine_control ecu uds =
     (if length uds < 2 then send_nrc ecu 0x31 0x11
      else and_then (getitem uds 1) (\<lambda>sub.
        if sub = 0x01 then
          (if length uds < 4 then send_nrc ecu 0x31 0x11
           else and_then (getitem uds 2) (\<lambda>rid_hi.
                and_then (getitem uds 3) (\<lambda>rid_lo.
             let rid = (push_bit 8 (uint rid_hi)) OR (uint rid_lo)
             in if rid = 0xFF00
                then send_sf (res_id (cfg ecu)) [0x71, 0x01, rid_hi, rid_lo, 0x00]
                else send_nrc ecu 0x31 0x31)))
        else send_nrc ecu 0x31 0x12))"

definition tester_present :: "MiniECUStub \<Rightarrow> byte list \<Rightarrow> effects" where
  "tester_present ecu uds =
     and_then (if length uds \<ge> 2 then getitem uds 1 else Inr 0x00) (\<lambda>sub.
       case sub_spr sub of (sub_wo, suppress) \<Rightarrow>
         if \<not> suppress
         then send_sf (res_id (cfg ecu)) [0x7E, sub_wo]
         else no_effect)"

definition control_dtc_setting :: "MiniECUStub \<Rightarrow> byte list \<Rightarrow> effects" where
  "control_dtc_setting ecu uds =
     (if length uds < 2 then send_nrc ecu 0x85 0x11
      else and_then (getitem uds 1) (\<lambda>sub.
        case sub_spr sub of (sub_wo, suppress) \<Rightarrow>
          if sub_wo = 0x01 \<or> sub_wo = 0x02 then
            (if \<not> suppress
             then send_sf (res_id (cfg ecu)) [0xC5, sub_wo]
             else no_effect)
          else send_nrc ecu 0x85 0x12))"

text \<open>
  One iteration of the loop in \<open>MiniECUStub.run\<close>: \<open>r\<close> is what \<open>bus.recv\<close> returned.
  The result is the stub after the iteration and what it did, or the exception that
  leaves the loop.
\<close>

definition run_step ::
  "MiniECUStub \<Rightarrow> 16 word \<Rightarrow> Message option \<Rightarrow> error + (MiniECUStub \<times> effect list)" where
  "run_step ecu rnd r =
     (case r of
        None \<Rightarrow> Inr (ecu, [])
      | Some msg \<Rightarrow>
          if arbitration_id msg \<noteq> req_id (cfg ecu) \<or> length (data msg) = 0 then Inr (ecu, [])
          else and_then (parse_isotp_single_frame (data msg)) (\<lambda>uds.
            if uds = [] then Inr (ecu, [])
            else and_then (getitem uds 0) (\<lambda>sid.
              if sid = 0x10 then with_ecu ecu (diagnostic_session_control ecu uds)
              else if sid = 0x11 then with_ecu ecu (ecu_reset ecu uds)
              else if sid = 0x22 then with_ecu ecu (read_data_by_identifier ecu uds)
              else if sid = 0x27 then security_access ecu rnd uds
              else if sid = 0x19 then with_ecu ecu (read_dtc_information ecu uds)
              else if sid = 0x31 then with_ecu ecu (routine_control ecu uds)
              else if sid = 0x3E then with_ecu ecu (tester_present ecu uds)
              else if sid = 0x85 then with_ecu ecu (control_dtc_setting ecu uds)
              else with_ecu ecu (send_nrc ecu sid 0x11))))"

text \<open>
  The loop itself, over the finite script of what the bus and the random generator
  deliver; the effects of the iterations are concatenated in order.
\<close>

fun run ::
  "MiniECUStub \<Rightarrow> (16 word \<times> Message option) list \<Rightarrow> error + (MiniECUStub \<times> effect list)" where
  "run ecu [] = Inr (ecu, [])"
| "run ecu ((rnd, r) # rest) =
     (if running ecu then
        and_then (run_step ecu rnd r) (\<lambda>(ecu1, evs).
        and_then (run ecu1 rest) (\<lambda>(ecu2, evs2). Inr (ecu2, evs @ evs2)))
      else Inr (ecu, []))"

section \<open>UDS client (single frame)\<close>

text \<open>
  Python floats are IEEE-754 doubles, and their arithmetic is not modelled. The type
  \<open>'f\<close> of the clock values and of the timeout is a parameter, and so are the two
  operations the loop test of \<open>send\<close> applies to them: \<open>float_sub\<close> is the subtraction
  in \<open>time.time() - start\<close> and \<open>float_less\<close> the comparison with \<open>self.timeout\<close>,
  each as the machine computes it. Nothing is assumed about them.
\<close>

record 'f float_arith =
  float_sub :: "'f \<Rightarrow> 'f \<Rightarrow> 'f"
  float_less :: "'f \<Rightarrow> 'f \<Rightarrow> bool"

text \<open>
  The arithmetic of the concrete runs below: exact subtraction and comparison. The
  runs start at clock value 0 and use clock values and timeouts that are multiples of
  1/8, on which exact arithmetic and double arithmetic agree.
\<close>

definition exact_arith :: "real float_arith" where
  "exact_arith = \<lparr>float_sub = (\<lambda>a b. a - b), float_less = (\<lambda>a b. a < b)\<rparr>"

record 'f UDSClientSF =
  req_id :: int
  res_id :: int
  timeout :: 'f
  show_interim :: bool

text \<open>
  What one call of \<open>send\<close> leaves behind: the frames it put on the bus, the lines it
  printed, and how it ended. \<open>result = None\<close> means that the loop was still polling
  when the script of the environment ended.
\<close>

record send_run =
  bus_tx :: "Message list"
  stdout :: "string list"
  result :: "(error + byte list) option"

definition is_response_pending :: "byte list \<Rightarrow> bool" where
  "is_response_pending pl \<longleftrightarrow> length pl \<ge> 3 \<and> pl ! 0 = 0x7F \<and> pl ! 2 = 0x78"

text \<open>
  The receive loop of \<open>send\<close>. Each element of the script is one iteration: the clock
  value \<open>time.time()\<close> read by the loop test, and what the following \<open>bus.recv\<close>
  returns if the test lets the body run.
\<close>

fun send_loop ::
  "'f float_arith \<Rightarrow> 'f UDSClientSF \<Rightarrow> 'f \<Rightarrow> byte list option \<Rightarrow> string list
     \<Rightarrow> ('f \<times> Message option) list \<Rightarrow> string list \<times> (error + byte list) option" where
  "send_loop fa c start last_interim out [] = (out, None)"
| "send_loop fa c start last_interim out ((now, r) # rest) =
     (if float_less fa (float_sub fa now start) (timeout c) then
        (case r of
           None \<Rightarrow> send_loop fa c start last_interim out rest
         | Some m \<Rightarrow>
             if arbitration_id m = UDSClientSF.res_id c then
               (case parse_isotp_single_frame (data m) of
                  Inl e \<Rightarrow> (out, Some (Inl e))
                | Inr pl \<Rightarrow>
                    if is_response_pending pl then
                      (if show_interim c \<and> Some pl \<noteq> last_interim
                       then send_loop fa c start (Some pl)
                              (out @ [''INTERIM: '' @ hexstr pl @ '' | Response Pending'']) rest
                       else send_loop fa c start last_interim out rest)
                    else (out, Some (Inr pl)))
             else send_loop fa c start last_interim out rest)
      else (out, Some (Inl TimeoutError)))"

text \<open>
  \<open>send\<close>: \<open>start\<close> is the clock value read after \<open>bus.send\<close>, \<open>polls\<close> the script
  of the receive loop.
\<close>

definition send ::
  "'f float_arith \<Rightarrow> 'f UDSClientSF \<Rightarrow> byte list \<Rightarrow> 'f \<Rightarrow> ('f \<times> Message option) list
     \<Rightarrow> send_run" where
  "send fa c payload start polls =
     (case make_isotp_single_frame payload of
        Inl e \<Rightarrow> \<lparr>bus_tx = [], stdout = [], result = Some (Inl e)\<rparr>
      | Inr d \<Rightarrow>
          (let msg = \<lparr>arbitration_id = UDSClientSF.req_id c, is_extended_id = False, data = d\<rparr>;
               (out, res) = send_loop fa c start None [] polls
           in \<lparr>bus_tx = [msg], stdout = out, result = res\<rparr>))"

section \<open>Properties of the codec\<close>

lemma nat_and_15: "n \<le> 7 \<Longrightarrow> (n::nat) AND 0x0F = n"
proof -
  assume small: "n \<le> 7"
  have "n AND 15 = take_bit 4 n"
    by (simp add: take_bit_eq_mask mask_eq_exp_minus_1)
  also have "\<dots> = n"
    using small by (simp add: take_bit_nat_eq_self_iff)
  finally show ?thesis by simp
qed

lemma byte_and_15: "unat ((b::byte) AND 0x0F) = unat b mod 16"
proof -
  have "b AND 15 = take_bit 4 b"
    by (simp add: take_bit_eq_mask mask_eq_exp_minus_1)
  then show ?thesis
    by (simp add: take_bit_eq_mod unat_mod)
qed

lemma pci_len: "n \<le> 7 \<Longrightarrow> unat ((word_of_nat n :: byte) AND 0x0F) = n"
  by (simp add: byte_and_15 unat_of_nat)

lemma make_ok:
  "length p \<le> 7 \<Longrightarrow>
   make_isotp_single_frame p = Inr (word_of_nat (length p) # p @ replicate (7 - length p) 0)"
  by (simp add: make_isotp_single_frame_def ljust_def nat_and_15 Let_def)

lemma make_too_long: "length p > 7 \<Longrightarrow> make_isotp_single_frame p = Inl ValueError"
  by (simp add: make_isotp_single_frame_def)

lemma parse_Nil: "parse_isotp_single_frame [] = Inr []"
  by (simp add: parse_isotp_single_frame_def)

lemma parse_Cons: "parse_isotp_single_frame (b # bs) = Inr (take (unat (b AND 0x0F)) bs)"
  by (simp add: parse_isotp_single_frame_def and_then_def getitem_def slice_def)

text \<open>
  C1. Round trip: for every payload of at most 7 bytes the encoder returns a body, and
  decoding that body gives the payload back.
\<close>

theorem roundtrip:
  "length p \<le> 7 \<Longrightarrow>
   and_then (make_isotp_single_frame p) parse_isotp_single_frame = Inr p"
  by (simp add: make_ok and_then_def parse_Cons pci_len)

theorem roundtrip_witness:
  "length [0x22, 0xF1, 0x87 :: byte] \<le> 7 \<and>
   and_then (make_isotp_single_frame [0x22, 0xF1, 0x87]) parse_isotp_single_frame
     = Inr [0x22, 0xF1, 0x87]"
  using roundtrip [of "[0x22, 0xF1, 0x87]"]
  by simp

text \<open>
  C8. The encoder raises exactly for the payloads longer than 7 bytes, and then it raises
  ValueError; in the client the exception leaves \<open>send\<close> before \<open>bus.send\<close> is reached,
  so no frame is transmitted (and nothing is printed).
\<close>

theorem make_fails_iff:
  "(isl (make_isotp_single_frame p) \<longleftrightarrow> length p > 7) \<and>
   (length p > 7 \<longrightarrow>
      make_isotp_single_frame p = Inl ValueError \<and>
      send fa c p start polls = \<lparr>bus_tx = [], stdout = [], result = Some (Inl ValueError)\<rparr>)"
proof (cases "length p > 7")
  case True
  then show ?thesis
    by (simp add: make_too_long send_def)
next
  case False
  then show ?thesis
    by (simp add: make_ok)
qed

theorem make_fails_iff_witness:
  "length [1, 2, 3, 4, 5, 6, 7, 8 :: byte] > 7 \<and>
   make_isotp_single_frame [1, 2, 3, 4, 5, 6, 7, 8] = Inl ValueError \<and>
   bus_tx (send exact_arith
             \<lparr>req_id = 0x7E0, res_id = 0x7E8, timeout = 1.5, show_interim = True\<rparr>
             [1, 2, 3, 4, 5, 6, 7, 8] 0 []) = []"
  using make_fails_iff
    [where p = "[1, 2, 3, 4, 5, 6, 7, 8]" and fa = exact_arith and start = 0 and polls = "[]"
       and c = "\<lparr>req_id = 0x7E0, res_id = 0x7E8, timeout = 1.5, show_interim = True\<rparr>"]
  by simp

text \<open>
  C10. The decoder never raises. The empty body decodes to the empty payload. For a
  non-empty body with length nibble \<open>n\<close>, the payload is the first
  \<open>min n (length body - 1)\<close> bytes that follow the first byte: when \<open>n\<close> exceeds what
  is there, the payload is cut short, with no padding and no error.
\<close>

theorem parse_total:
  "\<exists>pl. parse_isotp_single_frame body = Inr pl \<and>
        (body = [] \<longrightarrow> pl = []) \<and>
        (body \<noteq> [] \<longrightarrow>
           pl = take (min (unat (hd body AND 0x0F)) (length body - 1)) (tl body) \<and>
           length pl = min (unat (hd body AND 0x0F)) (length body - 1))"
proof (cases body)
  case Nil
  then show ?thesis
    by (simp add: parse_Nil)
next
  case (Cons b bs)
  then show ?thesis
    by (simp add: parse_Cons min_def)
qed

theorem parse_total_witness:
  "parse_isotp_single_frame [0x05, 0xAA, 0xBB] = Inr [0xAA, 0xBB] \<and>
   length [0xAA, 0xBB :: byte] = min 5 (length [0x05, 0xAA, 0xBB :: byte] - 1)"
  using parse_total [of "[0x05, 0xAA, 0xBB]"]
  by simp

section \<open>Properties of the ECU stub\<close>

lemma make_2: "make_isotp_single_frame [a, b] = Inr [0x02, a, b, 0, 0, 0, 0, 0]"
  by (simp add: make_ok eval_nat_numeral)

lemma make_3: "make_isotp_single_frame [a, b, c] = Inr [0x03, a, b, c, 0, 0, 0, 0]"
  by (simp add: make_ok eval_nat_numeral)

lemma send_sf_2: "send_sf arb [a, b] =
    Inr [BusSend \<lparr>arbitration_id = arb, is_extended_id = False, data = [0x02, a, b, 0, 0, 0, 0, 0]\<rparr>]"
  by (simp add: send_sf_def make_2 and_then_def)

lemma send_nrc_eq: "send_nrc ecu sid nrc =
    Inr [BusSend \<lparr>arbitration_id = ECUConfig.res_id (cfg ecu), is_extended_id = False,
                  data = [0x03, 0x7F, sid, nrc, 0, 0, 0, 0]\<rparr>]"
  by (simp add: send_nrc_def send_sf_def make_3 and_then_def)

lemma run_step_dispatch:
  assumes "arbitration_id msg = ECUConfig.req_id (cfg ecu)" and "data msg \<noteq> []"
    and "parse_isotp_single_frame (data msg) = Inr (sid # rest)"
  shows "run_step ecu rnd (Some msg) =
     (if sid = 0x10 then with_ecu ecu (diagnostic_session_control ecu (sid # rest))
      else if sid = 0x11 then with_ecu ecu (ecu_reset ecu (sid # rest))
      else if sid = 0x22 then with_ecu ecu (read_data_by_identifier ecu (sid # rest))
      else if sid = 0x27 then security_access ecu rnd (sid # rest)
      else if sid = 0x19 then with_ecu ecu (read_dtc_information ecu (sid # rest))
      else if sid = 0x31 then with_ecu ecu (routine_control ecu (sid # rest))
      else if sid = 0x3E then with_ecu ecu (tester_present ecu (sid # rest))
      else if sid = 0x85 then with_ecu ecu (control_dtc_setting ecu (sid # rest))
      else with_ecu ecu (send_nrc ecu sid 0x11))"
  using assms by (simp add: run_step_def and_then_def getitem_def)

lemma and_255: "(sub::byte) AND 0xFF = sub"
proof -
  have "(0xFF::byte) = - 1"
    by simp
  then show ?thesis
    by (simp only: and.right_neutral)
qed

lemma clear_bit7:
  assumes "(sub::byte) AND 0x80 = 0"
  shows "sub AND 0x7F = sub"
proof -
  have "(0x7F::byte) OR 0x80 = 0xFF"
    by simp
  then have "sub = sub AND (0x7F OR 0x80)"
    by (simp only: and_255)
  also have "\<dots> = (sub AND 0x7F) OR (sub AND 0x80)"
    by (simp only: bit.conj_disj_distrib)
  also have "\<dots> = sub AND 0x7F"
    using assms by simp
  finally show ?thesis by simp
qed

lemma set_bit7_core:
  assumes "(sub::byte) AND 0x80 = 0"
  shows "(sub OR 0x80) AND 0x7F = sub"
proof -
  have "(sub OR 0x80) AND 0x7F = (sub AND 0x7F) OR (0x80 AND 0x7F)"
    by (simp add: bit.conj_disj_distrib2)
  then show ?thesis
    using clear_bit7 [OF assms] by simp
qed

lemma set_bit7_flag: "((sub::byte) OR 0x80) AND 0x80 = 0x80"
  by (simp add: bit.conj_disj_distrib2)

lemma sub_spr_clear: "sub AND 0x80 = 0 \<Longrightarrow> sub_spr sub = (sub, False)"
  by (simp add: sub_spr_def clear_bit7)

lemma sub_spr_set: "sub AND 0x80 = 0 \<Longrightarrow> sub_spr (sub OR 0x80) = (sub, True)"
  by (simp add: sub_spr_def set_bit7_core set_bit7_flag)


lemma key_value: "push_bit 8 (uint (hi::byte)) OR uint (lo::byte) = uint hi * 256 + uint lo"
proof -
  have "push_bit 8 (uint hi) + uint lo = push_bit 8 (uint hi) OR uint lo"
  proof (rule disjunctive_add)
    fix n
    show "\<not> bit (push_bit 8 (uint hi)) n \<or> \<not> bit (uint lo) n"
      by (auto simp: bit_push_bit_iff bit_uint_iff)
  qed
  then show ?thesis
    by (simp add: push_bit_eq_mult)
qed

lemma and_ffff: "(k::int) AND 0xFFFF = k mod 65536"
proof -
  have "k AND 0xFFFF = take_bit 16 k"
    by (simp add: take_bit_eq_mask mask_eq_exp_minus_1)
  then show ?thesis
    by (simp add: take_bit_eq_mod)
qed

lemmas effect_simps = with_ecu_def and_then_def getitem_def seq_def sleep_def no_effect_def
  send_nrc_eq send_sf_2

lemma security_access_key:
  "security_access ecu rnd (0x27 # 0x02 # k_hi # k_lo # rest) =
     (if uint k_hi * 256 + uint k_lo
           = ((case last_seed ecu of None \<Rightarrow> 0 | Some s \<Rightarrow> s) + 1) mod 65536
      then Inr (ecu\<lparr>unlocked := True\<rparr>,
                [BusSend \<lparr>arbitration_id = ECUConfig.res_id (cfg ecu), is_extended_id = False,
                          data = [0x02, 0x67, 0x02, 0, 0, 0, 0, 0]\<rparr>])
      else Inr (ecu\<lparr>unlocked := False\<rparr>,
                [BusSend \<lparr>arbitration_id = ECUConfig.res_id (cfg ecu), is_extended_id = False,
                          data = [0x03, 0x7F, 0x27, 0x35, 0, 0, 0, 0]\<rparr>]))"
  by (cases "last_seed ecu")
     (simp_all add: security_access_def key_value and_ffff effect_simps Let_def)

lemma security_access_seed:
  "security_access ecu rnd [0x27, 0x01] =
     Inr (ecu\<lparr>last_seed := Some (uint rnd)\<rparr>,
          [BusSend \<lparr>arbitration_id = ECUConfig.res_id (cfg ecu), is_extended_id = False,
                    data = [0x04, 0x67, 0x01, word_of_int (drop_bit 8 (uint rnd) AND 0xFF),
                            word_of_int (uint rnd AND 0xFF), 0, 0, 0]\<rparr>])"
  by (simp add: security_access_def effect_simps send_sf_def make_ok Let_def eval_nat_numeral)


text \<open>
  C3. A SessionControl request whose sub-function without the suppress bit is 3: the
  stub sends the one frame of the interim negative reply \<open>7F 10 78\<close>, then sleeps 0.15
  seconds, and after that sends the frame of the positive reply \<open>50 03\<close> when the
  suppress bit is clear, and nothing more when it is set. The stub's fields are unchanged.
\<close>

theorem session_control_extended:
  assumes "arbitration_id msg = ECUConfig.req_id (cfg ecu)" and "data msg \<noteq> []"
    and "parse_isotp_single_frame (data msg) = Inr (0x10 # sub # rest)"
    and "sub AND 0x7F = 0x03"
  shows "run_step ecu rnd (Some msg) =
           Inr (ecu,
             [BusSend \<lparr>arbitration_id = ECUConfig.res_id (cfg ecu), is_extended_id = False,
                       data = [0x03, 0x7F, 0x10, 0x78, 0, 0, 0, 0]\<rparr>,
              Sleep 0.15] @
             (if sub AND 0x80 = 0
              then [BusSend \<lparr>arbitration_id = ECUConfig.res_id (cfg ecu), is_extended_id = False,
                             data = [0x02, 0x50, 0x03, 0, 0, 0, 0, 0]\<rparr>]
              else []))"
  using assms(4)
  by (simp add: run_step_dispatch [OF assms(1-3)] diagnostic_session_control_def
      sub_spr_def effect_simps)

theorem session_control_extended_witness:
  "run_step (MiniECUStub_init ECUConfig_default) 0
     (Some \<lparr>arbitration_id = 0x7E0, is_extended_id = False,
            data = [0x02, 0x10, 0x03, 0, 0, 0, 0, 0]\<rparr>) =
   Inr (MiniECUStub_init ECUConfig_default,
     [BusSend \<lparr>arbitration_id = 0x7E8, is_extended_id = False,
               data = [0x03, 0x7F, 0x10, 0x78, 0, 0, 0, 0]\<rparr>,
      Sleep 0.15,
      BusSend \<lparr>arbitration_id = 0x7E8, is_extended_id = False,
               data = [0x02, 0x50, 0x03, 0, 0, 0, 0, 0]\<rparr>])"
  using session_control_extended
    [where ecu = "MiniECUStub_init ECUConfig_default" and rnd = 0 and sub = "0x03" and rest = "[]"
       and msg = "\<lparr>arbitration_id = 0x7E0, is_extended_id = False,
                    data = [0x02, 0x10, 0x03, 0, 0, 0, 0, 0]\<rparr>"]
  by (simp add: parse_Cons MiniECUStub_init_def ECUConfig_default_def)

text \<open>
  C4. For the four services that honour the suppress bit (0x10, 0x11, 0x3E, 0x85) and a
  sub-function byte \<open>sub\<close> with bit 7 clear, the request with \<open>sub\<close> and the request
  with \<open>sub OR 0x80\<close> are both determined. When the service accepts \<open>sub\<close> (1 or 3
  for 0x10 and 0x11, anything for 0x3E, 1 or 2 for 0x85), the request without the bit
  ends with the frame of the positive reply \<open>[sid + 0x40, sub]\<close> and the request with
  the bit does not send it; everything before it is the same in both: the interim
  reply \<open>7F 10 78\<close> and the sleep of 0.15 s for SessionControl 3, nothing otherwise.
  When the service does not accept \<open>sub\<close>, both requests get the same negative reply
  \<open>[7F, sid, 12]\<close>. The stub's fields are unchanged in every case. So SessionControl
  \<open>83\<close> still sends the interim reply and sleeps, and TesterPresent \<open>80\<close> sends
  nothing.
\<close>

theorem suppress_only_withholds_positive:
  assumes "arbitration_id m0 = ECUConfig.req_id (cfg ecu)" and "data m0 \<noteq> []"
    and "parse_isotp_single_frame (data m0) = Inr (sid # sub # rest)"
    and "arbitration_id m1 = ECUConfig.req_id (cfg ecu)" and "data m1 \<noteq> []"
    and "parse_isotp_single_frame (data m1) = Inr (sid # (sub OR 0x80) # rest)"
    and "sub AND 0x80 = 0"
    and "sid \<in> {0x10, 0x11, 0x3E, 0x85}"
  shows
    "let accepted = (sid = 0x10 \<and> (sub = 0x01 \<or> sub = 0x03)) \<or>
                    (sid = 0x11 \<and> (sub = 0x01 \<or> sub = 0x03)) \<or>
                    sid = 0x3E \<or>
                    (sid = 0x85 \<and> (sub = 0x01 \<or> sub = 0x02));
         frame = (\<lambda>body. BusSend \<lparr>arbitration_id = ECUConfig.res_id (cfg ecu),
                                    is_extended_id = False, data = body\<rparr>);
         evs = (if accepted
                then (if sid = 0x10 \<and> sub = 0x03
                      then [frame [0x03, 0x7F, 0x10, 0x78, 0, 0, 0, 0], Sleep 0.15]
                      else [])
                else [frame [0x03, 0x7F, sid, 0x12, 0, 0, 0, 0]]);
         fin = (if accepted then [frame [0x02, sid + 0x40, sub, 0, 0, 0, 0, 0]] else [])
     in run_step ecu rnd (Some m0) = Inr (ecu, evs @ fin) \<and>
        run_step ecu rnd (Some m1) = Inr (ecu, evs)"
proof -
  note d0 = run_step_dispatch [OF assms(1-3)]
  note d1 = run_step_dispatch [OF assms(4-6)]
  note s0 = sub_spr_clear [OF assms(7)]
  note s1 = sub_spr_set [OF assms(7)]
  consider "sid = 0x10" | "sid = 0x11" | "sid = 0x3E" | "sid = 0x85"
    using assms(8) by auto
  then show ?thesis
  proof cases
    case 1
    then show ?thesis
      by (simp add: d0 d1 s0 s1 diagnostic_session_control_def effect_simps Let_def)
  next
    case 2
    then show ?thesis
      by (simp add: d0 d1 s0 s1 ecu_reset_def effect_simps Let_def)
  next
    case 3
    then show ?thesis
      by (simp add: d0 d1 s0 s1 tester_present_def effect_simps Let_def)
  next
    case 4
    then show ?thesis
      by (simp add: d0 d1 s0 s1 control_dtc_setting_def effect_simps Let_def)
  qed
qed

text \<open>
  The witness: SessionControl \<open>10 03\<close> against \<open>10 83\<close>, ECUReset \<open>11 01\<close> against
  \<open>11 81\<close>, and TesterPresent \<open>3E 00\<close> against \<open>3E 80\<close>.
\<close>

theorem suppress_only_withholds_positive_witness:
  "run_step (MiniECUStub_init ECUConfig_default) 0
     (Some \<lparr>arbitration_id = 0x7E0, is_extended_id = False,
            data = [0x02, 0x10, 0x03, 0, 0, 0, 0, 0]\<rparr>) =
   Inr (MiniECUStub_init ECUConfig_default,
     [BusSend \<lparr>arbitration_id = 0x7E8, is_extended_id = False,
               data = [0x03, 0x7F, 0x10, 0x78, 0, 0, 0, 0]\<rparr>,
      Sleep 0.15,
      BusSend \<lparr>arbitration_id = 0x7E8, is_extended_id = False,
               data = [0x02, 0x50, 0x03, 0, 0, 0, 0, 0]\<rparr>]) \<and>
   run_step (MiniECUStub_init ECUConfig_default) 0
     (Some \<lparr>arbitration_id = 0x7E0, is_extended_id = False,
            data = [0x02, 0x10, 0x83, 0, 0, 0, 0, 0]\<rparr>) =
   Inr (MiniECUStub_init ECUConfig_default,
     [BusSend \<lparr>arbitration_id = 0x7E8, is_extended_id = False,
               data = [0x03, 0x7F, 0x10, 0x78, 0, 0, 0, 0]\<rparr>,
      Sleep 0.15]) \<and>
   run_step (MiniECUStub_init ECUConfig_default) 0
     (Some \<lparr>arbitration_id = 0x7E0, is_extended_id = False,
            data = [0x02, 0x11, 0x01, 0, 0, 0, 0, 0]\<rparr>) =
   Inr (MiniECUStub_init ECUConfig_default,
     [BusSend \<lparr>arbitration_id = 0x7E8, is_extended_id = False,
               data = [0x02, 0x51, 0x01, 0, 0, 0, 0, 0]\<rparr>]) \<and>
   run_step (MiniECUStub_init ECUConfig_default) 0
     (Some \<lparr>arbitration_id = 0x7E0, is_extended_id = False,
            data = [0x02, 0x11, 0x81, 0, 0, 0, 0, 0]\<rparr>) =
   Inr (MiniECUStub_init ECUConfig_default, []) \<and>
   run_step (MiniECUStub_init ECUConfig_default) 0
     (Some \<lparr>arbitration_id = 0x7E0, is_extended_id = False,
            data = [0x02, 0x3E, 0x00, 0, 0, 0, 0, 0]\<rparr>) =
   Inr (MiniECUStub_init ECUConfig_default,
     [BusSend \<lparr>arbitration_id = 0x7E8, is_extended_id = False,
               data = [0x02, 0x7E, 0x00, 0, 0, 0, 0, 0]\<rparr>]) \<and>
   run_step (MiniECUStub_init ECUConfig_default) 0
     (Some \<lparr>arbitration_id = 0x7E0, is_extended_id = False,
            data = [0x02, 0x3E, 0x80, 0, 0, 0, 0, 0]\<rparr>) =
   Inr (MiniECUStub_init ECUConfig_default, [])"
proof -
  note a = suppress_only_withholds_positive
    [where ecu = "MiniECUStub_init ECUConfig_default" and rnd = 0 and sid = "0x10"
       and sub = "0x03" and rest = "[]"
       and ?m0.0 = "\<lparr>arbitration_id = 0x7E0, is_extended_id = False,
                    data = [0x02, 0x10, 0x03, 0, 0, 0, 0, 0]\<rparr>"
       and ?m1.0 = "\<lparr>arbitration_id = 0x7E0, is_extended_id = False,
                    data = [0x02, 0x10, 0x83, 0, 0, 0, 0, 0]\<rparr>"]
  note b = suppress_only_withholds_positive
    [where ecu = "MiniECUStub_init ECUConfig_default" and rnd = 0 and sid = "0x11"
       and sub = "0x01" and rest = "[]"
       and ?m0.0 = "\<lparr>arbitration_id = 0x7E0, is_extended_id = False,
                    data = [0x02, 0x11, 0x01, 0, 0, 0, 0, 0]\<rparr>"
       and ?m1.0 = "\<lparr>arbitration_id = 0x7E0, is_extended_id = False,
                    data = [0x02, 0x11, 0x81, 0, 0, 0, 0, 0]\<rparr>"]
  note c = suppress_only_withholds_positive
    [where ecu = "MiniECUStub_init ECUConfig_default" and rnd = 0 and sid = "0x3E"
       and sub = "0x00" and rest = "[]"
       and ?m0.0 = "\<lparr>arbitration_id = 0x7E0, is_extended_id = False,
                    data = [0x02, 0x3E, 0x00, 0, 0, 0, 0, 0]\<rparr>"
       and ?m1.0 = "\<lparr>arbitration_id = 0x7E0, is_extended_id = False,
                    data = [0x02, 0x3E, 0x80, 0, 0, 0, 0, 0]\<rparr>"]
  show ?thesis
    using a b c
    by (simp add: parse_Cons MiniECUStub_init_def ECUConfig_default_def Let_def)
qed

text \<open>
  C5. A send-key request \<open>27 02 kHi kLo\<close> handled while the stored seed is \<open>s\<close>: when
  the 16-bit key \<open>kHi * 256 + kLo\<close> equals \<open>(s + 1) mod 65536\<close> the stub sets
  \<open>unlocked\<close> and sends the positive reply \<open>67 02\<close>; for every other key it clears
  \<open>unlocked\<close> and sends the negative reply \<open>7F 27 35\<close>.
\<close>

theorem send_key_check:
  assumes "arbitration_id msg = ECUConfig.req_id (cfg ecu)" and "data msg \<noteq> []"
    and "parse_isotp_single_frame (data msg) = Inr [0x27, 0x02, k_hi, k_lo]"
    and "last_seed ecu = Some s"
  shows "run_step ecu rnd (Some msg) =
     (if uint k_hi * 256 + uint k_lo = (s + 1) mod 65536
      then Inr (ecu\<lparr>unlocked := True\<rparr>,
                [BusSend \<lparr>arbitration_id = ECUConfig.res_id (cfg ecu), is_extended_id = False,
                          data = [0x02, 0x67, 0x02, 0, 0, 0, 0, 0]\<rparr>])
      else Inr (ecu\<lparr>unlocked := False\<rparr>,
                [BusSend \<lparr>arbitration_id = ECUConfig.res_id (cfg ecu), is_extended_id = False,
                          data = [0x03, 0x7F, 0x27, 0x35, 0, 0, 0, 0]\<rparr>]))"
  using assms(4)
  by (simp add: run_step_dispatch [OF assms(1-3)] security_access_key)

text \<open>
  The witness runs the loop on a seed request that draws 0xFFFF and on the key 0x0000,
  which is \<open>(0xFFFF + 1) mod 65536\<close>.
\<close>

theorem send_key_check_witness:
  "run (MiniECUStub_init ECUConfig_default)
     [(0xFFFF, Some \<lparr>arbitration_id = 0x7E0, is_extended_id = False,
                     data = [0x02, 0x27, 0x01, 0, 0, 0, 0, 0]\<rparr>),
      (0, Some \<lparr>arbitration_id = 0x7E0, is_extended_id = False,
               data = [0x04, 0x27, 0x02, 0x00, 0x00, 0, 0, 0]\<rparr>)] =
   Inr (\<lparr>cfg = ECUConfig_default, running = True, unlocked = True, last_seed = Some 0xFFFF\<rparr>,
     [BusSend \<lparr>arbitration_id = 0x7E8, is_extended_id = False,
               data = [0x04, 0x67, 0x01, 0xFF, 0xFF, 0, 0, 0]\<rparr>,
      BusSend \<lparr>arbitration_id = 0x7E8, is_extended_id = False,
               data = [0x02, 0x67, 0x02, 0, 0, 0, 0, 0]\<rparr>])"
proof -
  let ?seed_msg = "\<lparr>arbitration_id = 0x7E0, is_extended_id = False,
                    data = [0x02, 0x27, 0x01, 0, 0, 0, 0, 0]\<rparr>"
  let ?key_msg = "\<lparr>arbitration_id = 0x7E0, is_extended_id = False,
                   data = [0x04, 0x27, 0x02, 0x00, 0x00, 0, 0, 0]\<rparr>"
  let ?ecu1 = "\<lparr>cfg = ECUConfig_default, running = True, unlocked = False,
                last_seed = Some 0xFFFF\<rparr>"
  have seed: "run_step (MiniECUStub_init ECUConfig_default) 0xFFFF (Some ?seed_msg) =
      Inr (?ecu1, [BusSend \<lparr>arbitration_id = 0x7E8, is_extended_id = False,
               data = [0x04, 0x67, 0x01, 0xFF, 0xFF, 0, 0, 0]\<rparr>])"
    by (simp add: run_step_def parse_Cons and_then_def getitem_def security_access_seed
          MiniECUStub_init_def ECUConfig_default_def)
  have key: "run_step ?ecu1 0 (Some ?key_msg) =
      Inr (?ecu1\<lparr>unlocked := True\<rparr>,
           [BusSend \<lparr>arbitration_id = 0x7E8, is_extended_id = False,
               data = [0x02, 0x67, 0x02, 0, 0, 0, 0, 0]\<rparr>])"
    using send_key_check [where ecu = ?ecu1 and msg = ?key_msg and rnd = 0 and s = "0xFFFF"
        and k_hi = 0 and k_lo = 0]
    by (simp add: parse_Cons ECUConfig_default_def)
  show ?thesis
    by (simp add: seed [unfolded MiniECUStub_init_def] key and_then_def MiniECUStub_init_def)
qed

text \<open>
  C7. A request whose service id is none of the eight supported ones is answered with
  the negative reply \<open>[7F, sid, 11]\<close>: the code is 0x11, the one the stub also uses for
  a request that is too short.
\<close>

theorem unsupported_service:
  assumes "arbitration_id msg = ECUConfig.req_id (cfg ecu)" and "data msg \<noteq> []"
    and "parse_isotp_single_frame (data msg) = Inr (sid # rest)"
    and "sid \<notin> {0x10, 0x11, 0x22, 0x27, 0x19, 0x31, 0x3E, 0x85}"
  shows "run_step ecu rnd (Some msg) =
           Inr (ecu, [BusSend \<lparr>arbitration_id = ECUConfig.res_id (cfg ecu), is_extended_id = False,
                                data = [0x03, 0x7F, sid, 0x11, 0, 0, 0, 0]\<rparr>])"
  using assms(4)
  by (simp add: run_step_dispatch [OF assms(1-3)] effect_simps)

theorem unsupported_service_witness:
  "run_step (MiniECUStub_init ECUConfig_default) 0
     (Some \<lparr>arbitration_id = 0x7E0, is_extended_id = False,
            data = [0x03, 0x2E, 0xF1, 0x87, 0, 0, 0, 0]\<rparr>) =
   Inr (MiniECUStub_init ECUConfig_default,
     [BusSend \<lparr>arbitration_id = 0x7E8, is_extended_id = False,
               data = [0x03, 0x7F, 0x2E, 0x11, 0, 0, 0, 0]\<rparr>])"
  using unsupported_service
    [where ecu = "MiniECUStub_init ECUConfig_default" and rnd = 0 and sid = "0x2E"
       and rest = "[0xF1, 0x87]"
       and msg = "\<lparr>arbitration_id = 0x7E0, is_extended_id = False,
                    data = [0x03, 0x2E, 0xF1, 0x87, 0, 0, 0, 0]\<rparr>"]
  by (simp add: parse_Cons MiniECUStub_init_def ECUConfig_default_def)

text \<open>
  C9. A send-key request \<open>27 02 kHi kLo\<close> handled while no seed is stored is checked
  against \<open>(0 + 1) mod 65536\<close>: the key is accepted (\<open>unlocked\<close> set, positive reply
  \<open>67 02\<close>) exactly when \<open>kHi * 256 + kLo\<close> is that value, and refused (\<open>unlocked\<close>
  cleared, negative reply \<open>7F 27 35\<close>) otherwise. In particular the key 0x0001 is
  accepted without any seed exchange.
\<close>

theorem send_key_without_seed:
  assumes "arbitration_id msg = ECUConfig.req_id (cfg ecu)" and "data msg \<noteq> []"
    and "parse_isotp_single_frame (data msg) = Inr [0x27, 0x02, k_hi, k_lo]"
    and "last_seed ecu = None"
  shows "run_step ecu rnd (Some msg) =
           (if uint k_hi * 256 + uint k_lo = (0 + 1) mod 65536
            then Inr (ecu\<lparr>unlocked := True\<rparr>,
                      [BusSend \<lparr>arbitration_id = ECUConfig.res_id (cfg ecu),
                                is_extended_id = False,
                                data = [0x02, 0x67, 0x02, 0, 0, 0, 0, 0]\<rparr>])
            else Inr (ecu\<lparr>unlocked := False\<rparr>,
                      [BusSend \<lparr>arbitration_id = ECUConfig.res_id (cfg ecu),
                                is_extended_id = False,
                                data = [0x03, 0x7F, 0x27, 0x35, 0, 0, 0, 0]\<rparr>])) \<and>
         (k_hi = 0x00 \<and> k_lo = 0x01 \<longrightarrow>
            run_step ecu rnd (Some msg) =
              Inr (ecu\<lparr>unlocked := True\<rparr>,
                   [BusSend \<lparr>arbitration_id = ECUConfig.res_id (cfg ecu),
                             is_extended_id = False,
                             data = [0x02, 0x67, 0x02, 0, 0, 0, 0, 0]\<rparr>]))"
  using assms(4)
  by (simp add: run_step_dispatch [OF assms(1-3)] security_access_key)

text \<open>
  The witness: on the freshly initialised stub the key 0x0001 is accepted and the key
  0x0002 is refused.
\<close>

theorem send_key_without_seed_witness:
  "run_step (MiniECUStub_init ECUConfig_default) 0
     (Some \<lparr>arbitration_id = 0x7E0, is_extended_id = False,
            data = [0x04, 0x27, 0x02, 0x00, 0x01, 0, 0, 0]\<rparr>) =
   Inr (\<lparr>cfg = ECUConfig_default, running = True, unlocked = True, last_seed = None\<rparr>,
     [BusSend \<lparr>arbitration_id = 0x7E8, is_extended_id = False,
               data = [0x02, 0x67, 0x02, 0, 0, 0, 0, 0]\<rparr>]) \<and>
   run_step (MiniECUStub_init ECUConfig_default) 0
     (Some \<lparr>arbitration_id = 0x7E0, is_extended_id = False,
            data = [0x04, 0x27, 0x02, 0x00, 0x02, 0, 0, 0]\<rparr>) =
   Inr (\<lparr>cfg = ECUConfig_default, running = True, unlocked = False, last_seed = None\<rparr>,
     [BusSend \<lparr>arbitration_id = 0x7E8, is_extended_id = False,
               data = [0x03, 0x7F, 0x27, 0x35, 0, 0, 0, 0]\<rparr>])"
  using send_key_without_seed
    [where ecu = "MiniECUStub_init ECUConfig_default" and rnd = 0
       and k_hi = "0x00" and k_lo = "0x01"
       and msg = "\<lparr>arbitration_id = 0x7E0, is_extended_id = False,
                    data = [0x04, 0x27, 0x02, 0x00, 0x01, 0, 0, 0]\<rparr>"]
    send_key_without_seed
    [where ecu = "MiniECUStub_init ECUConfig_default" and rnd = 0
       and k_hi = "0x00" and k_lo = "0x02"
       and msg = "\<lparr>arbitration_id = 0x7E0, is_extended_id = False,
                    data = [0x04, 0x27, 0x02, 0x00, 0x02, 0, 0, 0]\<rparr>"]
  by (simp add: parse_Cons MiniECUStub_init_def ECUConfig_default_def)

section \<open>Properties of the client\<close>

lemma send_result:
  "result (send fa c payload start polls) =
     (case make_isotp_single_frame payload of
        Inl e \<Rightarrow> Some (Inl e)
      | Inr d \<Rightarrow> snd (send_loop fa c start None [] polls))"
  by (simp add: send_def split: sum.splits prod.splits)

lemma send_loop_result_indep:
  "snd (send_loop fa c start li out polls) = snd (send_loop fa c start None [] polls)"
proof (induction polls arbitrary: li out)
  case Nil
  show ?case by simp
next
  case (Cons p polls)
  obtain now r where p: "p = (now, r)"
    by (cases p)
  define R where "R = snd (send_loop fa c start None [] polls)"
  have IH: "snd (send_loop fa c start a b polls) = R" for a b
    unfolding R_def by (rule Cons.IH)
  show ?case
    unfolding p by (simp add: IH split: option.splits sum.splits)
qed

lemma send_loop_step:
  "snd (send_loop fa c start li out ((now, r) # rest)) =
     (if float_less fa (float_sub fa now start) (timeout c) then
        (case r of
           None \<Rightarrow> snd (send_loop fa c start None [] rest)
         | Some m \<Rightarrow>
             if arbitration_id m = UDSClientSF.res_id c then
               (case parse_isotp_single_frame (data m) of
                  Inl e \<Rightarrow> Some (Inl e)
                | Inr pl \<Rightarrow>
                    if is_response_pending pl then snd (send_loop fa c start None [] rest)
                    else Some (Inr pl))
             else snd (send_loop fa c start None [] rest))
      else Some (Inl TimeoutError))"
proof -
  define R where "R = snd (send_loop fa c start None [] rest)"
  have R: "snd (send_loop fa c start a b rest) = R" for a b
    unfolding R_def by (rule send_loop_result_indep)
  show ?thesis
    unfolding R_def [symmetric]
    by (simp add: R split: option.splits sum.splits)
qed

lemma send_loop_returns:
  "snd (send_loop fa c start None [] polls) = Some (Inr pl) \<Longrightarrow>
     \<not> is_response_pending pl \<and>
     (\<exists>now m. (now, Some m) \<in> set polls \<and>
              float_less fa (float_sub fa now start) (timeout c) \<and>
              arbitration_id m = UDSClientSF.res_id c \<and>
              parse_isotp_single_frame (data m) = Inr pl)"
proof (induction polls)
  case Nil
  then show ?case by simp
next
  case (Cons p polls)
  obtain now r where p: "p = (now, r)"
    by (cases p)
  define R where "R = snd (send_loop fa c start None [] polls)"
  have IH: "R = Some (Inr pl) \<Longrightarrow> \<not> is_response_pending pl \<and>
     (\<exists>now m. (now, Some m) \<in> set polls \<and>
              float_less fa (float_sub fa now start) (timeout c) \<and>
              arbitration_id m = UDSClientSF.res_id c \<and>
              parse_isotp_single_frame (data m) = Inr pl)"
    unfolding R_def by (rule Cons.IH)
  have step: "snd (send_loop fa c start None [] (p # polls)) =
     (if float_less fa (float_sub fa now start) (timeout c) then
        (case r of
           None \<Rightarrow> R
         | Some m \<Rightarrow>
             if arbitration_id m = UDSClientSF.res_id c then
               (case parse_isotp_single_frame (data m) of
                  Inl e \<Rightarrow> Some (Inl e)
                | Inr pl \<Rightarrow> if is_response_pending pl then R else Some (Inr pl))
             else R)
      else Some (Inl TimeoutError))"
    unfolding p R_def by (rule send_loop_step)
  consider (rec) "R = Some (Inr pl)"
    | (here) m where "r = Some m" "float_less fa (float_sub fa now start) (timeout c)"
        "arbitration_id m = UDSClientSF.res_id c"
        "parse_isotp_single_frame (data m) = Inr pl" "\<not> is_response_pending pl"
    using Cons.prems unfolding step
    by (auto split: if_splits option.splits sum.splits)
  then show ?case
  proof cases
    case rec
    from IH [OF rec] show ?thesis
      by auto
  next
    case here
    then have "(now, Some m) \<in> set (p # polls)"
      by (simp add: p)
    with here show ?thesis
      by blast
  qed
qed

lemma send_loop_skip:
  assumes "float_less fa (float_sub fa now start) (timeout c)"
    and "arbitration_id m \<noteq> UDSClientSF.res_id c \<or>
         (\<exists>ipl. parse_isotp_single_frame (data m) = Inr ipl \<and> is_response_pending ipl)"
  shows "snd (send_loop fa c start None [] (pre @ (now, Some m) # rest)) =
         snd (send_loop fa c start None [] (pre @ rest))"
proof (induction pre)
  case Nil
  from assms show ?case
    by (auto simp add: send_loop_step simp del: send_loop.simps)
next
  case (Cons p pre)
  obtain t r where p: "p = (t, r)"
    by (cases p)
  show ?case
    unfolding p append_Cons send_loop_step [of fa c start None "[]" t r] Cons.IH ..
qed

lemma send_loop_timeout:
  assumes "\<not> float_less fa (float_sub fa t start) (timeout c)"
    and "\<forall>(now, r) \<in> set pre. \<forall>m.
           r = Some m \<and> arbitration_id m = UDSClientSF.res_id c \<longrightarrow>
           (\<exists>ipl. parse_isotp_single_frame (data m) = Inr ipl \<and> is_response_pending ipl)"
  shows "snd (send_loop fa c start None [] (pre @ (t, r) # post)) = Some (Inl TimeoutError)"
  using assms(2)
proof (induction pre)
  case Nil
  from assms(1) show ?case
    by (simp add: send_loop_step del: send_loop.simps)
next
  case (Cons p pre)
  obtain now r' where p: "p = (now, r')"
    by (cases p)
  define R where "R = snd (send_loop fa c start None [] (pre @ (t, r) # post))"
  have IH: "R = Some (Inl TimeoutError)"
    unfolding R_def using Cons.prems by (intro Cons.IH) simp
  have head: "\<forall>m. r' = Some m \<and> arbitration_id m = UDSClientSF.res_id c \<longrightarrow>
           (\<exists>ipl. parse_isotp_single_frame (data m) = Inr ipl \<and> is_response_pending ipl)"
    using Cons.prems by (simp add: p)
  have "snd (send_loop fa c start None [] ((now, r') # (pre @ (t, r) # post))) =
        Some (Inl TimeoutError)"
    unfolding send_loop_step [of fa c start None "[]" now r'] R_def [symmetric] IH
    using head by (auto split: option.splits sum.splits)
  then show ?case
    by (simp add: p)
qed

lemma send_loop_final:
  assumes "float_less fa (float_sub fa t start) (timeout c)"
    and "arbitration_id m = UDSClientSF.res_id c"
    and "parse_isotp_single_frame (data m) = Inr pl"
    and "\<not> is_response_pending pl"
    and "\<forall>(now, r) \<in> set pre.
           float_less fa (float_sub fa now start) (timeout c) \<and>
           (\<forall>m'. r = Some m' \<and> arbitration_id m' = UDSClientSF.res_id c \<longrightarrow>
              (\<exists>ipl. parse_isotp_single_frame (data m') = Inr ipl \<and> is_response_pending ipl))"
  shows "snd (send_loop fa c start None [] (pre @ (t, Some m) # post)) = Some (Inr pl)"
  using assms(5)
proof (induction pre)
  case Nil
  from assms(1-4) show ?case
    by (simp add: send_loop_step del: send_loop.simps)
next
  case (Cons p pre)
  obtain now r' where p: "p = (now, r')"
    by (cases p)
  define R where "R = snd (send_loop fa c start None [] (pre @ (t, Some m) # post))"
  have IH: "R = Some (Inr pl)"
    unfolding R_def using Cons.prems by (intro Cons.IH) simp
  have in_time: "float_less fa (float_sub fa now start) (timeout c)"
    using Cons.prems by (simp add: p)
  have head: "\<forall>m'. r' = Some m' \<and> arbitration_id m' = UDSClientSF.res_id c \<longrightarrow>
           (\<exists>ipl. parse_isotp_single_frame (data m') = Inr ipl \<and> is_response_pending ipl)"
    using Cons.prems by (simp add: p)
  have "snd (send_loop fa c start None [] ((now, r') # (pre @ (t, Some m) # post))) =
        Some (Inr pl)"
    unfolding send_loop_step [of fa c start None "[]" now r'] R_def [symmetric] IH
    using head in_time by (auto split: option.splits sum.splits)
  then show ?case
    by (simp add: p)
qed

text \<open>
  C2. A reply that is a negative response with the response-pending code is never what
  \<open>send\<close> returns. A frame from the response address that carries one, polled while
  the loop test holds, is passed over: the call ends as the same call (same start
  value, same timeout) ends without that poll. The loop keeps waiting: when every poll
  so far passed the loop test and brought nothing, a frame from another address or an
  interim reply, and the next poll passes the loop test and brings a frame from the
  response address with a payload that is not an interim reply, \<open>send\<close> returns that
  payload. And when the loop test fails at a clock reading while every frame from the
  response address so far carried an interim reply, \<open>send\<close> raises TimeoutError. The
  loop test is the one of the code, \<open>time.time() - start < self.timeout\<close>, in the
  machine's arithmetic.
\<close>

theorem pending_reply_not_final:
  "(result (send fa c payload start polls) = Some (Inr pl) \<longrightarrow> \<not> is_response_pending pl) \<and>
   (float_less fa (float_sub fa now start) (timeout c) \<and>
    arbitration_id m = UDSClientSF.res_id c \<and>
    parse_isotp_single_frame (data m) = Inr ipl \<and> is_response_pending ipl \<longrightarrow>
      result (send fa c payload start (pre @ (now, Some m) # rest)) =
      result (send fa c payload start (pre @ rest))) \<and>
   (length payload \<le> 7 \<and> float_less fa (float_sub fa t start) (timeout c) \<and>
    arbitration_id fm = UDSClientSF.res_id c \<and>
    parse_isotp_single_frame (data fm) = Inr fpl \<and> \<not> is_response_pending fpl \<and>
    (\<forall>(now', r') \<in> set pre.
        float_less fa (float_sub fa now' start) (timeout c) \<and>
        (\<forall>m'. r' = Some m' \<and> arbitration_id m' = UDSClientSF.res_id c \<longrightarrow>
           (\<exists>ipl'. parse_isotp_single_frame (data m') = Inr ipl' \<and>
                    is_response_pending ipl'))) \<longrightarrow>
      result (send fa c payload start (pre @ (t, Some fm) # post)) = Some (Inr fpl)) \<and>
   (length payload \<le> 7 \<and> \<not> float_less fa (float_sub fa t start) (timeout c) \<and>
    (\<forall>(now', r') \<in> set pre. \<forall>m'.
        r' = Some m' \<and> arbitration_id m' = UDSClientSF.res_id c \<longrightarrow>
        (\<exists>ipl'. parse_isotp_single_frame (data m') = Inr ipl' \<and>
                 is_response_pending ipl')) \<longrightarrow>
      result (send fa c payload start (pre @ (t, r) # post)) = Some (Inl TimeoutError))"
proof (intro conjI impI)
  assume "result (send fa c payload start polls) = Some (Inr pl)"
  then have "snd (send_loop fa c start None [] polls) = Some (Inr pl)"
    by (simp add: send_result split: sum.splits)
  then show "\<not> is_response_pending pl"
    by (rule send_loop_returns [THEN conjunct1])
next
  assume "float_less fa (float_sub fa now start) (timeout c) \<and>
    arbitration_id m = UDSClientSF.res_id c \<and>
    parse_isotp_single_frame (data m) = Inr ipl \<and> is_response_pending ipl"
  then have "snd (send_loop fa c start None [] (pre @ (now, Some m) # rest)) =
             snd (send_loop fa c start None [] (pre @ rest))"
    by (intro send_loop_skip) auto
  then show "result (send fa c payload start (pre @ (now, Some m) # rest)) =
             result (send fa c payload start (pre @ rest))"
    by (simp only: send_result)
next
  assume a: "length payload \<le> 7 \<and> float_less fa (float_sub fa t start) (timeout c) \<and>
    arbitration_id fm = UDSClientSF.res_id c \<and>
    parse_isotp_single_frame (data fm) = Inr fpl \<and> \<not> is_response_pending fpl \<and>
    (\<forall>(now', r') \<in> set pre.
        float_less fa (float_sub fa now' start) (timeout c) \<and>
        (\<forall>m'. r' = Some m' \<and> arbitration_id m' = UDSClientSF.res_id c \<longrightarrow>
           (\<exists>ipl'. parse_isotp_single_frame (data m') = Inr ipl' \<and>
                    is_response_pending ipl')))"
  then have "snd (send_loop fa c start None [] (pre @ (t, Some fm) # post)) = Some (Inr fpl)"
    by (intro send_loop_final) auto
  with a show "result (send fa c payload start (pre @ (t, Some fm) # post)) = Some (Inr fpl)"
    by (simp add: send_result make_ok)
next
  assume a: "length payload \<le> 7 \<and> \<not> float_less fa (float_sub fa t start) (timeout c) \<and>
    (\<forall>(now', r') \<in> set pre. \<forall>m'.
        r' = Some m' \<and> arbitration_id m' = UDSClientSF.res_id c \<longrightarrow>
        (\<exists>ipl'. parse_isotp_single_frame (data m') = Inr ipl' \<and>
                 is_response_pending ipl'))"
  then have "snd (send_loop fa c start None [] (pre @ (t, r) # post)) = Some (Inl TimeoutError)"
    by (intro send_loop_timeout) auto
  with a show "result (send fa c payload start (pre @ (t, r) # post)) = Some (Inl TimeoutError)"
    by (simp add: send_result make_ok)
qed

text \<open>
  The witness, with a timeout of 1.5 s and the interim reply to \<open>10 03\<close> polled at
  0.125 s: when the positive reply is polled at 0.25 s it is returned, and the call
  ends as it does without the interim poll; when the positive reply is polled only at
  2 s the call raises TimeoutError.
\<close>

theorem pending_reply_not_final_witness:
  "result (send exact_arith
             \<lparr>req_id = 0x7E0, res_id = 0x7E8, timeout = 1.5, show_interim = True\<rparr>
             [0x10, 0x03] 0
             [(0.125, Some \<lparr>arbitration_id = 0x7E8, is_extended_id = False,
                             data = [0x03, 0x7F, 0x10, 0x78, 0, 0, 0, 0]\<rparr>),
              (0.25, Some \<lparr>arbitration_id = 0x7E8, is_extended_id = False,
                            data = [0x02, 0x50, 0x03, 0, 0, 0, 0, 0]\<rparr>)])
     = Some (Inr [0x50, 0x03]) \<and>
   result (send exact_arith
             \<lparr>req_id = 0x7E0, res_id = 0x7E8, timeout = 1.5, show_interim = True\<rparr>
             [0x10, 0x03] 0
             [(0.125, Some \<lparr>arbitration_id = 0x7E8, is_extended_id = False,
                             data = [0x03, 0x7F, 0x10, 0x78, 0, 0, 0, 0]\<rparr>),
              (0.25, Some \<lparr>arbitration_id = 0x7E8, is_extended_id = False,
                            data = [0x02, 0x50, 0x03, 0, 0, 0, 0, 0]\<rparr>)])
     = result (send exact_arith
             \<lparr>req_id = 0x7E0, res_id = 0x7E8, timeout = 1.5, show_interim = True\<rparr>
             [0x10, 0x03] 0
             [(0.25, Some \<lparr>arbitration_id = 0x7E8, is_extended_id = False,
                            data = [0x02, 0x50, 0x03, 0, 0, 0, 0, 0]\<rparr>)]) \<and>
   result (send exact_arith
             \<lparr>req_id = 0x7E0, res_id = 0x7E8, timeout = 1.5, show_interim = True\<rparr>
             [0x10, 0x03] 0
             [(0.125, Some \<lparr>arbitration_id = 0x7E8, is_extended_id = False,
                             data = [0x03, 0x7F, 0x10, 0x78, 0, 0, 0, 0]\<rparr>),
              (2, Some \<lparr>arbitration_id = 0x7E8, is_extended_id = False,
                         data = [0x02, 0x50, 0x03, 0, 0, 0, 0, 0]\<rparr>)])
     = Some (Inl TimeoutError)"
proof -
  let ?c = "\<lparr>req_id = 0x7E0, res_id = 0x7E8, timeout = 1.5 :: real, show_interim = True\<rparr>"
  let ?pf = "\<lparr>arbitration_id = 0x7E8, is_extended_id = False,
               data = [0x03, 0x7F, 0x10, 0x78, 0, 0, 0, 0]\<rparr>"
  let ?ff = "\<lparr>arbitration_id = 0x7E8, is_extended_id = False,
               data = [0x02, 0x50, 0x03, 0, 0, 0, 0, 0]\<rparr>"
  note final = pending_reply_not_final
    [where fa = exact_arith and c = ?c and payload = "[0x10, 0x03]" and start = 0
       and t = "0.25" and fm = ?ff and fpl = "[0x50, 0x03]" and post = "[]"
       and pre = "[(0.125, Some ?pf)]"]
  note skip = pending_reply_not_final
    [where fa = exact_arith and c = ?c and payload = "[0x10, 0x03]" and start = 0
       and now = "0.125" and m = ?pf and ipl = "[0x7F, 0x10, 0x78]" and pre = "[]"
       and rest = "[(0.25, Some ?ff)]"]
  note late = pending_reply_not_final
    [where fa = exact_arith and c = ?c and payload = "[0x10, 0x03]" and start = 0
       and t = 2 and r = "Some ?ff" and post = "[]" and pre = "[(0.125, Some ?pf)]"]
  show ?thesis
    using final skip late
    by (simp add: parse_Cons is_response_pending_def exact_arith_def)
qed

text \<open>
  C6, as the code has it. What \<open>send\<close> returns is the decoded body of a polled frame
  whose arbitration id is the response address, polled while the loop test held. A
  frame from another address is passed over. A frame from the response address whose
  body decodes to the empty payload is not passed over: when every poll before it
  passed the loop test and brought nothing, a frame from another address or an interim
  reply, and its own poll passes the loop test, the call ends there and returns the
  empty payload.
\<close>

theorem send_returns_response_frame:
  "(result (send fa c payload start polls) = Some (Inr pl) \<longrightarrow>
      (\<exists>now m. (now, Some m) \<in> set polls \<and>
               float_less fa (float_sub fa now start) (timeout c) \<and>
               arbitration_id m = UDSClientSF.res_id c \<and>
               parse_isotp_single_frame (data m) = Inr pl)) \<and>
   (float_less fa (float_sub fa t start) (timeout c) \<and>
    arbitration_id other \<noteq> UDSClientSF.res_id c \<longrightarrow>
      result (send fa c payload start (pre @ (t, Some other) # rest)) =
      result (send fa c payload start (pre @ rest))) \<and>
   (length payload \<le> 7 \<and> float_less fa (float_sub fa t start) (timeout c) \<and>
    arbitration_id m0 = UDSClientSF.res_id c \<and>
    parse_isotp_single_frame (data m0) = Inr [] \<and>
    (\<forall>(now', r') \<in> set pre.
        float_less fa (float_sub fa now' start) (timeout c) \<and>
        (\<forall>m'. r' = Some m' \<and> arbitration_id m' = UDSClientSF.res_id c \<longrightarrow>
           (\<exists>ipl'. parse_isotp_single_frame (data m') = Inr ipl' \<and>
                    is_response_pending ipl'))) \<longrightarrow>
      result (send fa c payload start (pre @ (t, Some m0) # rest)) = Some (Inr []))"
proof (intro conjI impI)
  assume "result (send fa c payload start polls) = Some (Inr pl)"
  then have "snd (send_loop fa c start None [] polls) = Some (Inr pl)"
    by (simp add: send_result split: sum.splits)
  then show "\<exists>now m. (now, Some m) \<in> set polls \<and>
               float_less fa (float_sub fa now start) (timeout c) \<and>
               arbitration_id m = UDSClientSF.res_id c \<and>
               parse_isotp_single_frame (data m) = Inr pl"
    by (rule send_loop_returns [THEN conjunct2])
next
  assume "float_less fa (float_sub fa t start) (timeout c) \<and>
    arbitration_id other \<noteq> UDSClientSF.res_id c"
  then have "snd (send_loop fa c start None [] (pre @ (t, Some other) # rest)) =
             snd (send_loop fa c start None [] (pre @ rest))"
    by (intro send_loop_skip) auto
  then show "result (send fa c payload start (pre @ (t, Some other) # rest)) =
             result (send fa c payload start (pre @ rest))"
    by (simp only: send_result)
next
  assume a: "length payload \<le> 7 \<and> float_less fa (float_sub fa t start) (timeout c) \<and>
    arbitration_id m0 = UDSClientSF.res_id c \<and>
    parse_isotp_single_frame (data m0) = Inr [] \<and>
    (\<forall>(now', r') \<in> set pre.
        float_less fa (float_sub fa now' start) (timeout c) \<and>
        (\<forall>m'. r' = Some m' \<and> arbitration_id m' = UDSClientSF.res_id c \<longrightarrow>
           (\<exists>ipl'. parse_isotp_single_frame (data m') = Inr ipl' \<and>
                    is_response_pending ipl')))"
  have "\<not> is_response_pending []"
    by (simp add: is_response_pending_def)
  with a have "snd (send_loop fa c start None [] (pre @ (t, Some m0) # rest)) = Some (Inr [])"
    by (intro send_loop_final) auto
  with a show "result (send fa c payload start (pre @ (t, Some m0) # rest)) = Some (Inr [])"
    by (simp add: send_result make_ok)
qed

text \<open>
  The witness: a frame from address 0x123, an empty poll, an interim reply, and then a
  frame of length 0 from the response address, which ends the call with the empty
  payload; and the call ends the same way without the frame from 0x123.
\<close>

theorem send_returns_response_frame_witness:
  "result (send exact_arith
             \<lparr>req_id = 0x7E0, res_id = 0x7E8, timeout = 1.5, show_interim = True\<rparr>
             [0x3E, 0x00] 0
             [(0.125, Some \<lparr>arbitration_id = 0x123, is_extended_id = False,
                             data = [0x02, 0x7E, 0x00, 0, 0, 0, 0, 0]\<rparr>),
              (0.25, None),
              (0.375, Some \<lparr>arbitration_id = 0x7E8, is_extended_id = False,
                             data = [0x03, 0x7F, 0x3E, 0x78, 0, 0, 0, 0]\<rparr>),
              (0.5, Some \<lparr>arbitration_id = 0x7E8, is_extended_id = False, data = []\<rparr>)])
     = Some (Inr []) \<and>
   result (send exact_arith
             \<lparr>req_id = 0x7E0, res_id = 0x7E8, timeout = 1.5, show_interim = True\<rparr>
             [0x3E, 0x00] 0
             [(0.125, Some \<lparr>arbitration_id = 0x123, is_extended_id = False,
                             data = [0x02, 0x7E, 0x00, 0, 0, 0, 0, 0]\<rparr>),
              (0.25, None),
              (0.375, Some \<lparr>arbitration_id = 0x7E8, is_extended_id = False,
                             data = [0x03, 0x7F, 0x3E, 0x78, 0, 0, 0, 0]\<rparr>),
              (0.5, Some \<lparr>arbitration_id = 0x7E8, is_extended_id = False, data = []\<rparr>)])
     = result (send exact_arith
             \<lparr>req_id = 0x7E0, res_id = 0x7E8, timeout = 1.5, show_interim = True\<rparr>
             [0x3E, 0x00] 0
             [(0.25, None),
              (0.375, Some \<lparr>arbitration_id = 0x7E8, is_extended_id = False,
                             data = [0x03, 0x7F, 0x3E, 0x78, 0, 0, 0, 0]\<rparr>),
              (0.5, Some \<lparr>arbitration_id = 0x7E8, is_extended_id = False, data = []\<rparr>)])"
proof -
  let ?c = "\<lparr>req_id = 0x7E0, res_id = 0x7E8, timeout = 1.5 :: real, show_interim = True\<rparr>"
  let ?other = "\<lparr>arbitration_id = 0x123, is_extended_id = False,
                  data = [0x02, 0x7E, 0x00, 0, 0, 0, 0, 0]\<rparr>"
  let ?pf = "\<lparr>arbitration_id = 0x7E8, is_extended_id = False,
               data = [0x03, 0x7F, 0x3E, 0x78, 0, 0, 0, 0]\<rparr>"
  let ?empty = "\<lparr>arbitration_id = 0x7E8, is_extended_id = False, data = []\<rparr>"
  note final = send_returns_response_frame
    [where fa = exact_arith and c = ?c and payload = "[0x3E, 0x00]" and start = 0
       and t = "0.5" and ?m0.0 = ?empty and rest = "[]"
       and pre = "[(0.125, Some ?other), (0.25, None), (0.375, Some ?pf)]"]
  note skip = send_returns_response_frame
    [where fa = exact_arith and c = ?c and payload = "[0x3E, 0x00]" and start = 0
       and t = "0.125" and other = ?other and pre = "[]"
       and rest = "[(0.25, None), (0.375, Some ?pf), (0.5, Some ?empty)]"]
  show ?thesis
    using final skip
    by (simp add: parse_Nil parse_Cons is_response_pending_def exact_arith_def)
qed

text \<open>
  C6 as stated fails: a frame from the response address whose length nibble is 0,
  polled 0.125 s after the start with a timeout of 1.5 s, makes \<open>send\<close> return the
  empty payload.
\<close>

theorem send_empty_payload_counterexample:
  "result (send exact_arith
             \<lparr>req_id = 0x7E0, res_id = 0x7E8, timeout = 1.5, show_interim = True\<rparr>
             [0x3E, 0x00] 0
             [(0.125, Some \<lparr>arbitration_id = 0x7E8, is_extended_id = False,
                             data = [0x00, 0, 0, 0, 0, 0, 0, 0]\<rparr>)])
     = Some (Inr [])"
  by (simp add: send_result make_ok send_loop_step parse_Cons is_response_pending_def
        exact_arith_def del: send_loop.simps)

end
